theory Spec2Isabelle
  imports Complex_Main
begin

section \<open>Scene data\<close>

text \<open>
  The scene is the one built by \<^verbatim>\<open>src/components/3d/CastlesGroup.tsx\<close> and driven by
  \<^verbatim>\<open>src/components/3d/ModelScene.tsx\<close>. JavaScript numbers are modelled as real
  numbers, without rounding; the camera distances, which a division by zero can take out
  of the finite numbers, also have the infinities and NaN. Array indices and counters
  are natural numbers.
\<close>

text \<open>\<^verbatim>\<open>THREE.Vector3\<close> and the three angles of a \<^verbatim>\<open>THREE.Euler\<close>.\<close>

record vec3 =
  vx :: real
  vy :: real
  vz :: real

datatype colorSpace = NoColorSpace | SRGBColorSpace | LinearSRGBColorSpace

datatype wrapping = RepeatWrapping | ClampToEdgeWrapping | MirroredRepeatWrapping

datatype textureFilter = NearestFilter | LinearFilter | LinearMipmapLinearFilter

text \<open>A \<^verbatim>\<open>THREE.Texture\<close>; the image is an opaque handle.\<close>

record texture =
  image :: nat
  colorSpace :: colorSpace
  wrapS :: wrapping
  wrapT :: wrapping
  minFilter :: textureFilter
  magFilter :: textureFilter
  generateMipmaps :: bool
  anisotropy :: nat
  flipY :: bool
  needsUpdate :: bool

text \<open>
  The material built by \<^verbatim>\<open>new THREE.MeshStandardMaterial({...})\<close> in
  \<^verbatim>\<open>applyTexturesToMesh\<close>; the field \<^verbatim>\<open>map\<close> is named \<open>colorMap\<close> here.
\<close>

record standardMaterial =
  colorMap :: texture
  normalMap :: texture
  normalScale :: "real \<times> real"
  metalnessMap :: texture
  roughnessMap :: texture
  metalness :: real
  roughness :: real
  transparent :: bool
  fog :: bool
  materialNeedsUpdate :: bool

text \<open>
  A material is the one an asset came with (opaque), the physically based material above, or
  the Lambert material of the fallback geometry (its colour as a number). A mesh holds one
  material or an array of them.
\<close>

datatype material =
    EmbeddedMaterial nat
  | MeshStandardMaterial standardMaterial
  | MeshLambertMaterial nat

datatype materialSlot = SingleMaterial material | MaterialArray "material list"

text \<open>
  Geometry: a loaded buffer geometry, of which only the presence of the \<^verbatim>\<open>uv\<close>
  attribute is read, or one of the two procedural shapes of the fallback castle.
\<close>

datatype geometry =
    BufferGeometry bool
  | BoxGeometry real real real
  | ConeGeometry real real nat

fun hasUVs :: "geometry \<Rightarrow> bool" where
  "hasUVs (BufferGeometry uv) = uv"
| "hasUVs (BoxGeometry w h d) = True"
| "hasUVs (ConeGeometry r h s) = True"

text \<open>
  A node of a scene graph (\<^verbatim>\<open>THREE.Object3D\<close>): the \<^verbatim>\<open>isMesh\<close> flag, the geometry
  if any, the material, the local \<^verbatim>\<open>position.y\<close> and the children.
\<close>

datatype object3d =
  Object3D (isMesh: bool) (geometry: "geometry option") (material: materialSlot)
    (localY: real) (childNodes: "object3d list")

text \<open>A \<^verbatim>\<open>THREE.Group\<close>: its transform and its children.\<close>

record group =
  position :: vec3
  rotation :: vec3
  scale :: vec3
  children :: "object3d list"

definition newGroup :: group where
  "newGroup =
     \<lparr>position = \<lparr>vx = 0, vy = 0, vz = 0\<rparr>,
      rotation = \<lparr>vx = 0, vy = 0, vz = 0\<rparr>,
      scale = \<lparr>vx = 1, vy = 1, vz = 1\<rparr>,
      children = []\<rparr>"

section \<open>The animation driver\<close>

text \<open>
  \<^verbatim>\<open>animateCastles(castles, time)\<close>, \<^verbatim>\<open>CastlesGroup.tsx\<close> lines 323 to 336. The body
  of the \<^verbatim>\<open>forEach\<close> callback is \<open>animateCastle\<close>; it assigns \<^verbatim>\<open>position.y\<close>,
  \<^verbatim>\<open>rotation.z\<close> and \<^verbatim>\<open>rotation.x\<close> of one group. The in-place mutation of the
  groups is modelled by returning the updated list.
\<close>

definition animateCastle :: "real \<Rightarrow> nat \<Rightarrow> group \<Rightarrow> group" where
  "animateCastle time index castle =
     (let floatSpeed = 0.4;
          floatHeight = 2.5;
          offset = real index * 2.0
      in castle
           \<lparr>position := (position castle)\<lparr>vy := sin (time * floatSpeed + offset) * floatHeight\<rparr>,
            rotation := (rotation castle)
              \<lparr>vz := sin (time * 0.15 + offset) * 0.02,
               vx := cos (time * 0.18 + offset * 0.5) * 0.015\<rparr>\<rparr>)"

definition animateCastles :: "group list \<Rightarrow> real \<Rightarrow> group list" where
  "animateCastles castles time =
     map (\<lambda>(index, castle). animateCastle time index castle) (enumerate 0 castles)"

text \<open>
  The call in the render loop, \<^verbatim>\<open>ModelScene.tsx\<close> line 288:
  \<^verbatim>\<open>animateCastles(castles, t, castleRotationsRef.current)\<close>. The function declares two
  parameters, so the third argument is dropped by the call.
\<close>

definition animateCastlesCall :: "group list \<Rightarrow> real \<Rightarrow> real list \<Rightarrow> group list" where
  "animateCastlesCall castles t castleRotations = animateCastles castles t"

text \<open>Several frames in a row, one elapsed time per frame.\<close>

definition animateFrames :: "group list \<Rightarrow> real list \<Rightarrow> group list" where
  "animateFrames castles ts = foldl animateCastles castles ts"

text \<open>
  The transform fields the animation assigns, and everything else of a group:
  \<^verbatim>\<open>position.x\<close>, \<^verbatim>\<open>position.z\<close>, \<^verbatim>\<open>rotation.y\<close>, the scale and the children.
\<close>

definition writtenFields :: "group \<Rightarrow> real \<times> real \<times> real" where
  "writtenFields castle = (vy (position castle), vx (rotation castle), vz (rotation castle))"

definition unwrittenFields :: "group \<Rightarrow> real \<times> real \<times> real \<times> vec3 \<times> object3d list" where
  "unwrittenFields castle =
     (vx (position castle), vz (position castle), vy (rotation castle),
      scale castle, children castle)"

section \<open>Camera controller and gestures\<close>

text \<open>
  The zoom divides by the scale factor of a pinch, and a division by zero leaves the finite
  numbers. The camera distances are therefore JavaScript numbers with their special values:
  a finite number, one of the infinities, or NaN. \<open>Fin 0\<close> is the zero \<^verbatim>\<open>+0\<close>; no
  distance is ever \<^verbatim>\<open>-0\<close>. The operations are those of IEEE 754 without rounding.
\<close>

datatype jsnum = Fin real | PosInf | NegInf | NaN

text \<open>
  The scale factor of a pinch update, a finite number. The real zero is \<^verbatim>\<open>+0\<close>;
  \<^verbatim>\<open>-0\<close>, which only a division tells from it, is a value of its own.
\<close>

datatype scaleFactor = Scale real | MinusZero

fun jsNegate :: "jsnum \<Rightarrow> jsnum" where
  "jsNegate (Fin a) = Fin (- a)"
| "jsNegate PosInf = NegInf"
| "jsNegate NegInf = PosInf"
| "jsNegate NaN = NaN"

fun jsPlus :: "jsnum \<Rightarrow> jsnum \<Rightarrow> jsnum" where
  "jsPlus NaN b = NaN"
| "jsPlus a NaN = NaN"
| "jsPlus (Fin a) (Fin b) = Fin (a + b)"
| "jsPlus PosInf NegInf = NaN"
| "jsPlus NegInf PosInf = NaN"
| "jsPlus PosInf b = PosInf"
| "jsPlus a PosInf = PosInf"
| "jsPlus NegInf b = NegInf"
| "jsPlus a NegInf = NegInf"

definition jsMinus :: "jsnum \<Rightarrow> jsnum \<Rightarrow> jsnum" where
  "jsMinus a b = jsPlus a (jsNegate b)"

fun jsTimes :: "jsnum \<Rightarrow> jsnum \<Rightarrow> jsnum" where
  "jsTimes NaN b = NaN"
| "jsTimes a NaN = NaN"
| "jsTimes (Fin a) (Fin b) = Fin (a * b)"
| "jsTimes (Fin a) PosInf = (if 0 < a then PosInf else if a < 0 then NegInf else NaN)"
| "jsTimes (Fin a) NegInf = (if 0 < a then NegInf else if a < 0 then PosInf else NaN)"
| "jsTimes PosInf (Fin b) = (if 0 < b then PosInf else if b < 0 then NegInf else NaN)"
| "jsTimes NegInf (Fin b) = (if 0 < b then NegInf else if b < 0 then PosInf else NaN)"
| "jsTimes PosInf PosInf = PosInf"
| "jsTimes PosInf NegInf = NegInf"
| "jsTimes NegInf PosInf = NegInf"
| "jsTimes NegInf NegInf = PosInf"

text \<open>
  The quotient of a distance by a scale factor: a finite number over zero is an infinity
  with the sign of the number and of the zero, zero over zero is NaN.
\<close>

fun jsDivide :: "jsnum \<Rightarrow> scaleFactor \<Rightarrow> jsnum" where
  "jsDivide NaN k = NaN"
| "jsDivide (Fin a) (Scale b) =
     (if b \<noteq> 0 then Fin (a / b)
      else if 0 < a then PosInf else if a < 0 then NegInf else NaN)"
| "jsDivide (Fin a) MinusZero =
     (if 0 < a then NegInf else if a < 0 then PosInf else NaN)"
| "jsDivide PosInf (Scale b) = (if 0 \<le> b then PosInf else NegInf)"
| "jsDivide PosInf MinusZero = NegInf"
| "jsDivide NegInf (Scale b) = (if 0 \<le> b then NegInf else PosInf)"
| "jsDivide NegInf MinusZero = PosInf"

text \<open>\<^verbatim>\<open>Math.min\<close> and \<^verbatim>\<open>Math.max\<close>: NaN if an argument is NaN.\<close>

fun mathMin :: "jsnum \<Rightarrow> jsnum \<Rightarrow> jsnum" where
  "mathMin NaN b = NaN"
| "mathMin a NaN = NaN"
| "mathMin NegInf b = NegInf"
| "mathMin a NegInf = NegInf"
| "mathMin PosInf b = b"
| "mathMin a PosInf = a"
| "mathMin (Fin a) (Fin b) = Fin (min a b)"

fun mathMax :: "jsnum \<Rightarrow> jsnum \<Rightarrow> jsnum" where
  "mathMax NaN b = NaN"
| "mathMax a NaN = NaN"
| "mathMax PosInf b = PosInf"
| "mathMax a PosInf = PosInf"
| "mathMax NegInf b = b"
| "mathMax a NegInf = a"
| "mathMax (Fin a) (Fin b) = Fin (max a b)"

text \<open>
  The refs of the \<^verbatim>\<open>ModelScene\<close> component (\<^verbatim>\<open>ModelScene.tsx\<close> lines 18 to 58)
  that the gesture handlers and the render loop read and write. A rotation
  \<^verbatim>\<open>{ x, y }\<close> holds the pitch in \<open>rx\<close> and the yaw in \<open>ry\<close>; the rotations are
  only added to, subtracted from and multiplied, and stay real numbers.
\<close>

definition CAMERA_MIN_DISTANCE :: real where
  "CAMERA_MIN_DISTANCE = 35"

definition CAMERA_MAX_DISTANCE :: real where
  "CAMERA_MAX_DISTANCE = 80"

definition CAMERA_DEFAULT_DISTANCE :: real where
  "CAMERA_DEFAULT_DISTANCE = 50"

record rotation2 =
  rx :: real
  ry :: real

definition CAMERA_DEFAULT_ROTATION :: rotation2 where
  "CAMERA_DEFAULT_ROTATION = \<lparr>rx = 0, ry = 0\<rparr>"

text \<open>
  The text of the gesture indicator, one constructor per message of the source; the number
  of \<open>CastleSpin\<close> is the one printed (\<^verbatim>\<open>castleIndex + 1\<close>). The timer that clears
  the indicator after 1500 ms is not modelled.
\<close>

datatype gesture = NoGesture | ResetView | Rotating | Zooming | CastleSpin int

record refs =
  cameraDistance :: jsnum
  cameraRotation :: rotation2
  targetCameraDistance :: jsnum
  targetCameraRotation :: rotation2
  touchStartDistance :: jsnum
  castleRotations :: "real list"
  gestureIndicator :: gesture

definition initialRefs :: refs where
  "initialRefs =
     \<lparr>cameraDistance = Fin CAMERA_DEFAULT_DISTANCE,
      cameraRotation = \<lparr>rx = 0, ry = 0\<rparr>,
      targetCameraDistance = Fin CAMERA_DEFAULT_DISTANCE,
      targetCameraRotation = \<lparr>rx = 0, ry = 0\<rparr>,
      touchStartDistance = Fin 0,
      castleRotations = [0, 0, 0],
      gestureIndicator = NoGesture\<rparr>"

definition showGesture :: "gesture \<Rightarrow> refs \<Rightarrow> refs" where
  "showGesture g s = s\<lparr>gestureIndicator := g\<rparr>"

definition resetCamera :: "refs \<Rightarrow> refs" where
  "resetCamera s =
     showGesture ResetView
       (s\<lparr>targetCameraDistance := Fin CAMERA_DEFAULT_DISTANCE,
          targetCameraRotation := CAMERA_DEFAULT_ROTATION\<rparr>)"

text \<open>\<^verbatim>\<open>updateCameraRotation(deltaX, deltaY)\<close>, lines 78 to 88.\<close>

definition updateCameraRotation :: "real \<Rightarrow> real \<Rightarrow> refs \<Rightarrow> refs" where
  "updateCameraRotation deltaX deltaY s =
     (let y1 = ry (targetCameraRotation s) + deltaX * 0.01;
          x1 = rx (targetCameraRotation s) - deltaY * 0.01;
          x2 = max (- pi / 2.5) (min (pi / 2.5) x1)
      in s\<lparr>targetCameraRotation := \<lparr>rx = x2, ry = y1\<rparr>\<rparr>)"

text \<open>
  \<^verbatim>\<open>updateCameraZoom(scale)\<close>, lines 90 to 96; the parameter \<^verbatim>\<open>scale\<close> is named
  \<open>pinchScale\<close> here.
\<close>

definition updateCameraZoom :: "scaleFactor \<Rightarrow> refs \<Rightarrow> refs" where
  "updateCameraZoom pinchScale s =
     (let newDistance = jsDivide (touchStartDistance s) pinchScale
      in s\<lparr>targetCameraDistance :=
             mathMax (Fin CAMERA_MIN_DISTANCE)
               (mathMin (Fin CAMERA_MAX_DISTANCE) newDistance)\<rparr>)"

definition saveTouchStartDistance :: "refs \<Rightarrow> refs" where
  "saveTouchStartDistance s = s\<lparr>touchStartDistance := cameraDistance s\<rparr>"

text \<open>
  \<^verbatim>\<open>rotateCastle(castleIndex)\<close>, lines 103 to 109. The array of accumulated rotations
  is only ever written here, at an index below three, so it keeps its three elements.
\<close>

definition rotateCastle :: "int \<Rightarrow> refs \<Rightarrow> refs" where
  "rotateCastle castleIndex s =
     (if castleIndex \<ge> 0 \<and> castleIndex < 3
      then showGesture (CastleSpin (castleIndex + 1))
             (s\<lparr>castleRotations :=
                  (castleRotations s)
                    [nat castleIndex := castleRotations s ! nat castleIndex + pi / 4]\<rparr>)
      else s)"

text \<open>The band of a tap, lines 142 to 153, and the tap handler, lines 140 to 157.\<close>

definition tappedCastle :: "real \<Rightarrow> real \<Rightarrow> int" where
  "tappedCastle tapX screenWidth =
     (if tapX < screenWidth / 3 then 0
      else if tapX < (2 * screenWidth) / 3 then 1
      else 2)"

definition tapGesture :: "real \<Rightarrow> real \<Rightarrow> refs \<Rightarrow> refs" where
  "tapGesture tapX screenWidth s = rotateCastle (tappedCastle tapX screenWidth) s"

text \<open>
  The camera part of one frame of the render loop, lines 264 to 275: the current distance
  and rotation move towards their targets by the factor 0.15.
\<close>

definition lerpCamera :: "refs \<Rightarrow> refs" where
  "lerpCamera s =
     (let lerpFactor = 0.15 in
      s\<lparr>cameraDistance :=
          jsPlus (cameraDistance s)
            (jsTimes (jsMinus (targetCameraDistance s) (cameraDistance s)) (Fin lerpFactor)),
        cameraRotation :=
          \<lparr>rx = rx (cameraRotation s)
                 + (rx (targetCameraRotation s) - rx (cameraRotation s)) * lerpFactor,
           ry = ry (cameraRotation s)
                 + (ry (targetCameraRotation s) - ry (cameraRotation s)) * lerpFactor\<rparr>\<rparr>)"

text \<open>
  What the component receives: the callbacks of the pan, pinch and tap gestures, a camera
  reset, and a frame of the render loop. A tap carries its horizontal coordinate; the screen
  width is a parameter of the run.
\<close>

datatype event =
    PanStart | PanUpdate real real | PanEnd
  | PinchStart | PinchUpdate scaleFactor | PinchEnd
  | Tap real
  | ResetCamera
  | Frame

fun handle :: "real \<Rightarrow> refs \<Rightarrow> event \<Rightarrow> refs" where
  "handle w s PanStart = showGesture Rotating s"
| "handle w s (PanUpdate translationX translationY) =
     updateCameraRotation translationX translationY s"
| "handle w s PanEnd = s\<lparr>gestureIndicator := NoGesture\<rparr>"
| "handle w s PinchStart = showGesture Zooming (saveTouchStartDistance s)"
| "handle w s (PinchUpdate pinchScale) = updateCameraZoom pinchScale s"
| "handle w s PinchEnd = s\<lparr>gestureIndicator := NoGesture\<rparr>"
| "handle w s (Tap tapX) = tapGesture tapX w s"
| "handle w s ResetCamera = resetCamera s"
| "handle w s Frame = lerpCamera s"

definition run :: "real \<Rightarrow> event list \<Rightarrow> refs" where
  "run w evs = foldl (handle w) initialRefs evs"






section \<open>Asset loading\<close>

text \<open>
  An asset handle is the number a static \<^verbatim>\<open>require\<close> yields. A manifest entry that
  passed the filter of \<^verbatim>\<open>loadCastlesGroup\<close> is a \<^verbatim>\<open>CastleData\<close>.
\<close>

type_synonym resource = nat

record castleData =
  model :: resource
  textures :: "resource list"

text \<open>
  The two loaders of \<^verbatim>\<open>expo-three\<close> are outside the repository; their outcomes are
  parameters. A texture load either rejects (\<open>None\<close>; a promise resolving to no texture
  object ends in the same \<^verbatim>\<open>catch\<close>) or yields a texture. A model load throws,
  yields no result, yields a result without \<^verbatim>\<open>scene\<close>, or yields a scene root. The
  outcome is indexed by the call (castle index, and texture index), so that two loads of one
  handle may end differently. The texture loads of one castle run in parallel:
  \<open>settledAt\<close> gives the time at which the load of a texture (castle index, texture
  index) settles, and so the order in which the loads print their messages.
\<close>

datatype gltfOutcome = LoadThrows | LoadNull | LoadNoScene | LoadScene object3d

record loaders =
  loadTextureAsync :: "nat \<Rightarrow> nat \<Rightarrow> resource \<Rightarrow> texture option"
  loadAsync :: "nat \<Rightarrow> resource \<Rightarrow> gltfOutcome"
  settledAt :: "nat \<Rightarrow> nat \<Rightarrow> nat"

text \<open>
  The calls of \<^verbatim>\<open>console.warn\<close> and \<^verbatim>\<open>console.error\<close>, one constructor per
  message of the source with the number it prints; \<^verbatim>\<open>console.log\<close> is not recorded.
  None of these messages contains the texts that \<^verbatim>\<open>suppressGLWarnings\<close> filters out.
\<close>

datatype message =
    TextureFailed nat
  | NoUVMapping
  | ExpectedThreeTextures nat
  | NoTexturesLoaded nat
  | InvalidGLTF nat
  | CastleFailed nat
  | CastleFailedStack
  | ManifestFailed
  | NoModelsInManifest
  | UsingFallback nat

datatype consoleLine = ConsoleWarn message | ConsoleError message

text \<open>
  \<^verbatim>\<open>loadTextureOptimized(textureResource, index)\<close>, lines 49 to 83, with the loaders
  and the castle index of the call as further parameters.
\<close>

definition loadTextureOptimized ::
  "loaders \<Rightarrow> nat \<Rightarrow> resource \<Rightarrow> nat \<Rightarrow> texture option \<times> consoleLine list" where
  "loadTextureOptimized env castleIndex textureResource index =
     (case loadTextureAsync env castleIndex index textureResource of
        None \<Rightarrow> (None, [ConsoleError (TextureFailed index)])
      | Some texture \<Rightarrow>
          (Some (texture
             \<lparr>colorSpace :=
                (if index = 0 then NoColorSpace
                 else if index = 1 then SRGBColorSpace
                 else if index = 2 then NoColorSpace
                 else colorSpace texture),
              wrapS := RepeatWrapping,
              wrapT := RepeatWrapping,
              minFilter := LinearMipmapLinearFilter,
              magFilter := LinearFilter,
              generateMipmaps := True,
              anisotropy := 4,
              flipY := False,
              needsUpdate := True\<rparr>), []))"

text \<open>
  \<^verbatim>\<open>applyTexturesToMesh(mesh, textures, meshIndex)\<close>, lines 92 to 164. The mesh index
  only feeds \<^verbatim>\<open>console.log\<close> and is left out; the parameter \<^verbatim>\<open>textures\<close> is named
  \<open>loadedTextures\<close>, as its only caller names it. The function is only called on a node
  that has a geometry.
\<close>

definition applyTexturesToMesh ::
  "object3d \<Rightarrow> texture list \<Rightarrow> object3d \<times> consoleLine list" where
  "applyTexturesToMesh mesh loadedTextures =
     (let hasUV = (case geometry mesh of Some g \<Rightarrow> hasUVs g | None \<Rightarrow> False) in
      if \<not> hasUV then (mesh, [ConsoleWarn NoUVMapping])
      else if length loadedTextures < 3
      then (mesh, [ConsoleWarn (ExpectedThreeTextures (length loadedTextures))])
      else
        let normalTex = loadedTextures ! 0;
            colorTex = loadedTextures ! 1;
            metallicRoughnessTex = loadedTextures ! 2;
            pbrMaterial = MeshStandardMaterial
              \<lparr>colorMap = colorTex,
               normalMap = normalTex,
               normalScale = (1, 1),
               metalnessMap = metallicRoughnessTex,
               roughnessMap = metallicRoughnessTex,
               metalness = 0.0,
               roughness = 1.0,
               transparent = False,
               fog = False,
               materialNeedsUpdate = True\<rparr>;
            newMaterial = (case material mesh of
                MaterialArray ms \<Rightarrow> MaterialArray [pbrMaterial]
              | SingleMaterial m \<Rightarrow> SingleMaterial pbrMaterial)
        in (Object3D (isMesh mesh) (geometry mesh) newMaterial (localY mesh) (childNodes mesh),
            []))"

text \<open>
  \<^verbatim>\<open>gltf.scene.traverse(...)\<close> with the callback of lines 206 to 210: the node first,
  then its children in order. The callback changes the material of the node only.
\<close>

fun traverseApply :: "texture list \<Rightarrow> object3d \<Rightarrow> object3d \<times> consoleLine list" where
  "traverseApply loadedTextures (Object3D m g mat y cs) =
     (let visited =
            (if m \<and> g \<noteq> None
             then applyTexturesToMesh (Object3D m g mat y cs) loadedTextures
             else (Object3D m g mat y cs, []));
          below = map (traverseApply loadedTextures) cs
      in (Object3D (isMesh (fst visited)) (geometry (fst visited)) (material (fst visited))
            (localY (fst visited)) (map fst below),
          snd visited @ concat (map snd below)))"

text \<open>
  \<^verbatim>\<open>loadSingleCastle(castleData, castleIndex, totalCastles)\<close>, lines 169 to 225. The
  result \<open>None\<close> is the source's \<^verbatim>\<open>null\<close>; every exception ends in the
  \<^verbatim>\<open>catch\<close> of the function. \<open>settledTextures\<close> is the result of
  \<^verbatim>\<open>Promise.all(texturePromises)\<close>, line 182, in the order of the textures;
  \<open>textureConsole\<close> are the messages of the texture loads in the order in which the
  loads settle (loads given the same time are listed in the order of the textures).
\<close>

definition settledTextures ::
  "loaders \<Rightarrow> castleData \<Rightarrow> nat \<Rightarrow> (texture option \<times> consoleLine list) list" where
  "settledTextures env castleData castleIndex =
     map (\<lambda>(idx, tex). loadTextureOptimized env castleIndex tex idx)
         (enumerate 0 (textures castleData))"

definition textureConsole :: "loaders \<Rightarrow> castleData \<Rightarrow> nat \<Rightarrow> consoleLine list" where
  "textureConsole env castleData castleIndex =
     (let settled = settledTextures env castleData castleIndex
      in concat (map (\<lambda>idx. snd (settled ! idx))
                     (sort_key (settledAt env castleIndex) [0..<length settled])))"

definition loadSingleCastle ::
  "loaders \<Rightarrow> castleData \<Rightarrow> nat \<Rightarrow> nat \<Rightarrow> group option \<times> consoleLine list" where
  "loadSingleCastle env castleData castleIndex totalCastles =
     (let settled = settledTextures env castleData castleIndex;
          loadedTextures = List.map_filter fst settled;
          out = textureConsole env castleData castleIndex
      in if length loadedTextures = 0
         then (None, out @ [ConsoleError (NoTexturesLoaded (castleIndex + 1))])
         else
           (case loadAsync env castleIndex (model castleData) of
              LoadThrows \<Rightarrow>
                (None, out @ [ConsoleError (CastleFailed (castleIndex + 1)),
                              ConsoleError CastleFailedStack])
            | LoadNull \<Rightarrow> (None, out @ [ConsoleError (InvalidGLTF (castleIndex + 1))])
            | LoadNoScene \<Rightarrow> (None, out @ [ConsoleError (InvalidGLTF (castleIndex + 1))])
            | LoadScene sceneRoot \<Rightarrow>
                (let textured = traverseApply loadedTextures sceneRoot
                 in (Some (newGroup\<lparr>children := [fst textured]\<rparr>), out @ snd textured))))"

text \<open>
  \<^verbatim>\<open>createFallbackCastle(castleIndex)\<close>, lines 230 to 253. The colours are
  \<^verbatim>\<open>0xff00ff\<close>, \<^verbatim>\<open>0x00ffff\<close>, \<^verbatim>\<open>0xffff00\<close> and, for the roof, \<^verbatim>\<open>0xff6b6b\<close>.
\<close>

definition createFallbackCastle :: "nat \<Rightarrow> group" where
  "createFallbackCastle castleIndex =
     (let colors = [16711935, 65535, 16776960];
          body = Object3D True (Some (BoxGeometry 2 3 2))
                   (SingleMaterial (MeshLambertMaterial (colors ! (castleIndex mod length colors))))
                   1.5 [];
          roof = Object3D True (Some (ConeGeometry 1.5 2 4))
                   (SingleMaterial (MeshLambertMaterial 16739179)) 4 []
      in newGroup\<lparr>children := [body, roof]\<rparr>)"

text \<open>
  The imported manifest value as lines 266 to 274 read it: an array; a value that is not
  an array and whose \<^verbatim>\<open>default\<close> is an array; a value that is not an array and whose
  truthy \<^verbatim>\<open>default\<close> has no \<^verbatim>\<open>filter\<close> method (the call throws and the
  \<^verbatim>\<open>catch\<close> logs it); or a value with no truthy \<^verbatim>\<open>default\<close> (also
  \<^verbatim>\<open>null\<close> and \<^verbatim>\<open>undefined\<close>), read as the empty array. An item of the array is
  falsy, or an object whose \<^verbatim>\<open>model\<close> and \<^verbatim>\<open>textures\<close> are truthy or not
  (\<open>None\<close> when absent or falsy).
\<close>

datatype manifestItem =
    FalsyItem
  | ItemObject (itemModel: "resource option") (itemTextures: "resource list option")

datatype manifestModule =
    ManifestArray "manifestItem list"
  | DefaultArray "manifestItem list"
  | DefaultNotArray
  | NoDefault

fun validItem :: "manifestItem \<Rightarrow> castleData option" where
  "validItem (ItemObject (Some m) (Some ts)) = Some \<lparr>model = m, textures = ts\<rparr>"
| "validItem item = None"

fun readManifest :: "manifestModule \<Rightarrow> castleData list \<times> consoleLine list" where
  "readManifest (ManifestArray items) = (List.map_filter validItem items, [])"
| "readManifest (DefaultArray items) = (List.map_filter validItem items, [])"
| "readManifest DefaultNotArray = ([], [ConsoleError ManifestFailed])"
| "readManifest NoDefault = ([], [])"

text \<open>The scene holds the lights that \<^verbatim>\<open>ModelScene\<close> added and the groups added here.\<close>

datatype sceneChild = AmbientLight real | DirectionalLight real vec3 | GroupChild group

text \<open>
  The slot table and scale of lines 299 to 305, and the lookup
  \<^verbatim>\<open>positions[i] || positions[0]\<close> of line 309.
\<close>

definition positions :: "vec3 list" where
  "positions =
     [\<lparr>vx = - 30, vy = 0, vz = 0\<rparr>, \<lparr>vx = 0, vy = 0, vz = 0\<rparr>, \<lparr>vx = 30, vy = 0, vz = 0\<rparr>]"

definition positionAt :: "nat \<Rightarrow> vec3" where
  "positionAt i = (if i < length positions then positions ! i else positions ! 0)"

definition castleScale :: real where
  "castleScale = 22"

definition placeCastle :: "nat \<Rightarrow> group \<Rightarrow> group" where
  "placeCastle i castle =
     (let pos = positionAt i in
      castle\<lparr>position := \<lparr>vx = vx pos, vy = vy pos, vz = vz pos\<rparr>,
             scale := \<lparr>vx = castleScale, vy = castleScale, vz = castleScale\<rparr>\<rparr>)"

text \<open>The body of the loading loop, lines 287 to 295.\<close>

definition loadOrFallback :: "loaders \<Rightarrow> castleData list \<Rightarrow> nat \<Rightarrow> group \<times> consoleLine list" where
  "loadOrFallback env manifest i =
     (case loadSingleCastle env (manifest ! i) i (length manifest) of
        (Some castle, out) \<Rightarrow> (castle, out)
      | (None, out) \<Rightarrow> (createFallbackCastle i, out @ [ConsoleWarn (UsingFallback (i + 1))]))"

text \<open>
  \<^verbatim>\<open>loadCastlesGroup(scene)\<close>, lines 258 to 321, with the loaders and the imported
  manifest as parameters. It returns the groups, the scene after the call and the console
  output.
\<close>

record loadResult =
  castleGroups :: "group list"
  sceneChildren :: "sceneChild list"
  console :: "consoleLine list"

definition loadCastlesGroup :: "loaders \<Rightarrow> manifestModule \<Rightarrow> sceneChild list \<Rightarrow> loadResult" where
  "loadCastlesGroup env modelsManifest scene =
     (let manifest = fst (readManifest modelsManifest);
          out0 = snd (readManifest modelsManifest)
      in if length manifest = 0
         then \<lparr>castleGroups = [], sceneChildren = scene,
               console = out0 @ [ConsoleWarn NoModelsInManifest]\<rparr>
         else
           (let loaded = map (loadOrFallback env manifest) [0..<length manifest];
                placed = map (\<lambda>(i, castle). placeCastle i castle) (enumerate 0 (map fst loaded))
            in \<lparr>castleGroups = placed,
                sceneChildren = scene @ map GroupChild placed,
                console = out0 @ concat (map snd loaded)\<rparr>))"

section \<open>Notions used in the statements\<close>

text \<open>The textures of an entry that loaded, in order: the successful texture set.\<close>

definition loadedTexturesOf :: "loaders \<Rightarrow> castleData \<Rightarrow> nat \<Rightarrow> texture list" where
  "loadedTexturesOf env castleData castleIndex =
     List.map_filter fst (settledTextures env castleData castleIndex)"

text \<open>
  The nodes that the traversal hands to \<^verbatim>\<open>applyTexturesToMesh\<close>, in the order of the
  visit, and the warning such a node gets when fewer than three textures are there.
\<close>

fun meshNodes :: "object3d \<Rightarrow> object3d list" where
  "meshNodes (Object3D m g mat y cs) =
     (if m \<and> g \<noteq> None then [Object3D m g mat y cs] else []) @ concat (map meshNodes cs)"

definition skipWarning :: "nat \<Rightarrow> object3d \<Rightarrow> consoleLine" where
  "skipWarning n mesh =
     (if (case geometry mesh of Some g \<Rightarrow> hasUVs g | None \<Rightarrow> False)
      then ConsoleWarn (ExpectedThreeTextures n)
      else ConsoleWarn NoUVMapping)"

text \<open>A manifest value from which the filter of line 271 keeps no entry.\<close>

fun noValidEntry :: "manifestModule \<Rightarrow> bool" where
  "noValidEntry (ManifestArray items) = list_all (\<lambda>item. validItem item = None) items"
| "noValidEntry (DefaultArray items) = list_all (\<lambda>item. validItem item = None) items"
| "noValidEntry DefaultNotArray = True"
| "noValidEntry NoDefault = True"

text \<open>Whether a model load ended without a scene root.\<close>

fun loadFailed :: "gltfOutcome \<Rightarrow> bool" where
  "loadFailed (LoadScene sceneRoot) = False"
| "loadFailed outcome = True"

section \<open>Concrete inputs\<close>

text \<open>
  The manifest of the application (three models, three textures each), a texture as a
  loader hands it over, a small scene graph (a root with one mesh that has UV coordinates),
  and loaders: one for which every load succeeds, one whose model load throws for one
  castle, and one whose texture loads reject from a texture index on and settle in the
  reverse order of the textures.
\<close>

definition appManifest :: manifestModule where
  "appManifest =
     ManifestArray
       [ItemObject (Some 1) (Some [2, 3, 4]),
        ItemObject (Some 5) (Some [6, 7, 8]),
        ItemObject (Some 9) (Some [10, 11, 12])]"

definition sampleTexture :: "nat \<Rightarrow> texture" where
  "sampleTexture n =
     \<lparr>image = n, colorSpace = LinearSRGBColorSpace, wrapS = ClampToEdgeWrapping,
      wrapT = ClampToEdgeWrapping, minFilter = LinearMipmapLinearFilter,
      magFilter = LinearFilter, generateMipmaps = True, anisotropy = 1, flipY = True,
      needsUpdate = False\<rparr>"

definition sampleScene :: object3d where
  "sampleScene =
     Object3D False None (SingleMaterial (EmbeddedMaterial 0)) 0
       [Object3D True (Some (BufferGeometry True)) (SingleMaterial (EmbeddedMaterial 1)) 0 []]"

definition loadsAll :: loaders where
  "loadsAll =
     \<lparr>loadTextureAsync = (\<lambda>castleIndex index res. Some (sampleTexture res)),
      loadAsync = (\<lambda>castleIndex res. LoadScene sampleScene),
      settledAt = (\<lambda>castleIndex index. index)\<rparr>"

definition modelThrowsAt :: "nat \<Rightarrow> loaders" where
  "modelThrowsAt k =
     \<lparr>loadTextureAsync = (\<lambda>castleIndex index res. Some (sampleTexture res)),
      loadAsync = (\<lambda>castleIndex res. if castleIndex = k then LoadThrows
                                     else LoadScene sampleScene),
      settledAt = (\<lambda>castleIndex index. index)\<rparr>"

definition texturesRejectFrom :: "nat \<Rightarrow> loaders" where
  "texturesRejectFrom k =
     \<lparr>loadTextureAsync = (\<lambda>castleIndex index res. if index < k then Some (sampleTexture res)
                                                 else None),
      loadAsync = (\<lambda>castleIndex res. LoadScene sampleScene),
      settledAt = (\<lambda>castleIndex index. 100 - index)\<rparr>"

section \<open>Facts about the animation driver\<close>

lemma length_animateCastles: "length (animateCastles castles time) = length castles"
  by (simp add: animateCastles_def)

lemma nth_animateCastles:
  "i < length castles \<Longrightarrow> animateCastles castles time ! i = animateCastle time i (castles ! i)"
  by (simp add: animateCastles_def nth_enumerate_eq)

lemma animateCastle_idem:
  "animateCastle time i (animateCastle time i castle) = animateCastle time i castle"
  by (simp add: animateCastle_def Let_def)

lemma animateCastles_idem:
  "animateCastles (animateCastles castles time) time = animateCastles castles time"
  by (rule nth_equalityI)
     (simp_all add: length_animateCastles nth_animateCastles animateCastle_idem)

lemma unwritten_animateCastle:
  "unwrittenFields (animateCastle time i castle) = unwrittenFields castle"
  by (simp add: animateCastle_def unwrittenFields_def Let_def)

lemma unwritten_animateCastles:
  "map unwrittenFields (animateCastles castles time) = map unwrittenFields castles"
  by (rule nth_equalityI)
     (simp_all add: length_animateCastles nth_animateCastles unwritten_animateCastle)

lemma unwritten_animateFrames:
  "map unwrittenFields (animateFrames castles ts) = map unwrittenFields castles"
  unfolding animateFrames_def
  by (induction ts arbitrary: castles) (simp_all add: unwritten_animateCastles)

lemma length_animateFrames: "length (animateFrames castles ts) = length castles"
  unfolding animateFrames_def
  by (induction ts arbitrary: castles) (simp_all add: length_animateCastles)

lemma written_animateCastles:
  "map writtenFields (animateCastles castles time) =
     map (\<lambda>i. (sin (time * 0.4 + real i * 2.0) * 2.5,
               cos (time * 0.18 + real i * 2.0 * 0.5) * 0.015,
               sin (time * 0.15 + real i * 2.0) * 0.02)) [0..<length castles]"
  by (rule nth_equalityI)
     (simp_all add: length_animateCastles nth_animateCastles writtenFields_def
        animateCastle_def Let_def)

text \<open>
  Claim C10. A frame of the animation assigns \<^verbatim>\<open>position.y\<close>, \<^verbatim>\<open>rotation.x\<close> and
  \<^verbatim>\<open>rotation.z\<close> only: the number of groups and, for every group,
  \<^verbatim>\<open>position.x\<close>, \<^verbatim>\<open>position.z\<close>, \<^verbatim>\<open>rotation.y\<close>, the scale and the
  children are those before the frame, and so they are after any number of frames.
\<close>

theorem animateCastles_frame:
  "length (animateCastles castles time) = length castles \<and>
   map unwrittenFields (animateCastles castles time) = map unwrittenFields castles \<and>
   length (animateFrames castles ts) = length castles \<and>
   map unwrittenFields (animateFrames castles ts) = map unwrittenFields castles"
  by (simp add: length_animateCastles unwritten_animateCastles length_animateFrames
        unwritten_animateFrames)

text \<open>
  Claim C8. The animation step as the render loop calls it is idempotent, and the fields
  it assigns are given by the elapsed time and the index of the group alone: they depend
  neither on the transforms before the call nor on anything but the arguments.
\<close>

theorem animateCastles_pure_idempotent:
  "animateCastlesCall (animateCastlesCall castles t rots) t rots =
     animateCastlesCall castles t rots \<and>
   map writtenFields (animateCastlesCall castles t rots) =
     map (\<lambda>i. (sin (t * 0.4 + real i * 2.0) * 2.5,
               cos (t * 0.18 + real i * 2.0 * 0.5) * 0.015,
               sin (t * 0.15 + real i * 2.0) * 0.02)) [0..<length castles]"
  unfolding animateCastlesCall_def
  by (simp only: animateCastles_idem written_animateCastles)

text \<open>
  Claim C5. The claim says that a frame sets \<^verbatim>\<open>rotation.y\<close> to a base spin plus the
  accumulated tap rotation of the item. The animation step does not: the accumulated
  rotations passed by the render loop have no effect on its result, and \<^verbatim>\<open>rotation.y\<close>
  of every group is what it was before the frame.
\<close>

theorem animateCastles_ignores_tap_rotation:
  "animateCastlesCall castles t rots = animateCastlesCall castles t rots' \<and>
   map (\<lambda>castle. vy (rotation castle)) (animateCastlesCall castles t rots) =
     map (\<lambda>castle. vy (rotation castle)) castles"
proof -
  have "map (\<lambda>castle. vy (rotation castle)) (animateCastles castles t) =
        map (\<lambda>castle. vy (rotation castle)) castles"
    by (rule nth_equalityI)
       (simp_all add: length_animateCastles nth_animateCastles animateCastle_def Let_def)
  then show ?thesis by (simp add: animateCastlesCall_def)
qed

text \<open>
  The same at a concrete input: after a tap on the left band the accumulated rotation of
  item 0 is \<open>pi / 4\<close>, and the next frame leaves \<^verbatim>\<open>rotation.y\<close> of all three groups
  at 0.
\<close>

lemma tap_then_frame:
  "castleRotations (tapGesture 10 300 initialRefs) = [pi / 4, 0, 0] \<and>
   map (\<lambda>castle. vy (rotation castle))
     (animateCastlesCall [newGroup, newGroup, newGroup] 0.01
        (castleRotations (tapGesture 10 300 initialRefs))) = [0, 0, 0]"
  by (simp add: animateCastlesCall_def animateCastles_def animateCastle_def newGroup_def
        tapGesture_def tappedCastle_def rotateCastle_def initialRefs_def showGesture_def
        enumerate_eq_zip upt_rec)

section \<open>Facts about the camera controller\<close>


















text \<open>
  The clamps are reached: halving the pinch scale asks for the distance 100 and the target
  becomes 80; after a pinch start the scale factor \<^verbatim>\<open>+0\<close> gives the upper and
  \<^verbatim>\<open>-0\<close> the lower bound; a drag of 500 downwards asks for the pitch \<open>- 5\<close> and the
  target becomes \<open>- pi / 2.5\<close>; one frame after the first pinch the current distance has
  moved from 50 to 54.5.
\<close>

lemma clamps_reached:
  "targetCameraDistance (run 300 [PinchStart, PinchUpdate (Scale 0.5)]) = Fin 80 \<and>
   targetCameraDistance (run 300 [PinchStart, PinchUpdate (Scale 0)]) = Fin 80 \<and>
   targetCameraDistance (run 300 [PinchStart, PinchUpdate MinusZero]) = Fin 35 \<and>
   rx (targetCameraRotation (run 300 [PanUpdate 10 500])) = - pi / 2.5 \<and>
   cameraDistance (run 300 [PinchStart, PinchUpdate (Scale 0.5), Frame]) = Fin 54.5"
proof -
  have "pi * 2 < 25" using pi_less_4 by simp
  moreover have "\<not> pi * 2 \<le> - 25" using pi_gt_zero by linarith
  ultimately show ?thesis
    by (simp add: run_def initialRefs_def saveTouchStartDistance_def showGesture_def
          updateCameraZoom_def updateCameraRotation_def lerpCamera_def jsMinus_def
          CAMERA_MIN_DISTANCE_def CAMERA_MAX_DISTANCE_def CAMERA_DEFAULT_DISTANCE_def
          Let_def max_def min_def)
qed

section \<open>Facts about the tap handler\<close>

lemma tappedCastle_cases:
  "tappedCastle x w = 0 \<or> tappedCastle x w = 1 \<or> tappedCastle x w = 2"
  by (simp add: tappedCastle_def)

lemma tappedCastle_band:
  assumes "0 < w" "0 \<le> x" "x < w"
  shows "tappedCastle x w = \<lfloor>3 * x / w\<rfloor>"
proof -
  have a: "x < w / 3 \<longleftrightarrow> 3 * x / w < 1" using assms by (simp add: field_simps)
  have b: "x < 2 * w / 3 \<longleftrightarrow> 3 * x / w < 2" using assms by (simp add: field_simps)
  have c: "0 \<le> 3 * x / w" "3 * x / w < 3" using assms by (simp_all add: field_simps)
  show ?thesis
  proof (cases "3 * x / w < 1")
    case True
    then have "\<lfloor>3 * x / w\<rfloor> = 0" using c by (simp add: floor_eq_iff)
    then show ?thesis using True a by (simp add: tappedCastle_def)
  next
    case False
    show ?thesis
    proof (cases "3 * x / w < 2")
      case True
      then have "\<lfloor>3 * x / w\<rfloor> = 1" using False c by (simp add: floor_eq_iff)
      then show ?thesis using True False a b by (simp add: tappedCastle_def)
    next
      case nlt: False
      then have "\<lfloor>3 * x / w\<rfloor> = 2" using c by (simp add: floor_eq_iff)
      then show ?thesis using nlt False a b by (simp add: tappedCastle_def)
    qed
  qed
qed

lemma rotateCastle_in_range:
  "0 \<le> i \<Longrightarrow> i < 3 \<Longrightarrow>
   castleRotations (rotateCastle i s) =
     (castleRotations s)[nat i := castleRotations s ! nat i + pi / 4]"
  by (simp add: rotateCastle_def showGesture_def)

lemma rotateCastle_out_of_range: "i < 0 \<or> 3 \<le> i \<Longrightarrow> rotateCastle i s = s"
  by (auto simp add: rotateCastle_def)

text \<open>
  Claim C3, amended. A tap at \<open>x\<close> on a screen of width \<open>w\<close> selects one band
  \<open>k\<close> of 0, 1, 2 (for a tap inside the screen the third of the width it falls in), adds
  \<open>pi / 4\<close>, an eighth of a turn, to the accumulated rotation of item \<open>k\<close> and leaves
  every other item's accumulated rotation as it was; \<^verbatim>\<open>rotateCastle\<close> at an index
  outside 0, 1, 2 changes nothing.
\<close>

theorem tap_rotates_one_castle:
  assumes "length (castleRotations s) = 3"
  shows "(tappedCastle x w = 0 \<or> tappedCastle x w = 1 \<or> tappedCastle x w = 2) \<and>
         (0 < w \<and> 0 \<le> x \<and> x < w \<longrightarrow> tappedCastle x w = \<lfloor>3 * x / w\<rfloor>) \<and>
         length (castleRotations (tapGesture x w s)) = 3 \<and>
         castleRotations (tapGesture x w s) ! nat (tappedCastle x w) =
           castleRotations s ! nat (tappedCastle x w) + pi / 4 \<and>
         (\<forall>j. j \<noteq> nat (tappedCastle x w) \<longrightarrow>
              castleRotations (tapGesture x w s) ! j = castleRotations s ! j) \<and>
         (\<forall>i. i < 0 \<or> 3 \<le> i \<longrightarrow> rotateCastle i s = s)"
proof -
  let ?k = "tappedCastle x w"
  have k: "0 \<le> ?k" "?k < 3" using tappedCastle_cases [of x w] by auto
  have upd: "castleRotations (tapGesture x w s) =
      (castleRotations s)[nat ?k := castleRotations s ! nat ?k + pi / 4]"
    unfolding tapGesture_def using k by (rule rotateCastle_in_range)
  have lt: "nat ?k < length (castleRotations s)" using k assms by simp
  show ?thesis
    using tappedCastle_cases [of x w] tappedCastle_band [of w x] assms lt
    by (simp add: upd rotateCastle_out_of_range)
qed

theorem tap_rotates_one_castle_witness:
  "length (castleRotations initialRefs) = 3 \<and>
   tappedCastle 150 300 = 1 \<and>
   castleRotations (tapGesture 150 300 initialRefs) = [0, pi / 4, 0] \<and>
   rotateCastle 3 initialRefs = initialRefs"
  using tap_rotates_one_castle [of initialRefs 150 300]
  by (simp add: initialRefs_def tappedCastle_def tapGesture_def rotateCastle_def
        showGesture_def)

text \<open>
  Claim C3 as stated fails: a quarter of a turn is \<open>pi / 2\<close>, and a tap on the middle
  band of a screen 300 wide does not add \<open>pi / 2\<close> to the accumulated rotation of item 1.
\<close>

theorem tap_quarter_turn_counterexample:
  "\<not> (castleRotations (tapGesture 150 300 initialRefs) ! 1 =
        castleRotations initialRefs ! 1 + pi / 2)"
  by (simp add: initialRefs_def tappedCastle_def tapGesture_def rotateCastle_def
        showGesture_def)

section \<open>Facts about the texture loader\<close>

text \<open>
  Claim C7. When the platform loader rejects, no texture is returned. When it yields a
  texture, that texture is returned with its image, with the colour space
  \<^verbatim>\<open>THREE.NoColorSpace\<close> for the role index 0 or 2 (the data is taken as linear, with
  no reinterpretation) and \<^verbatim>\<open>THREE.SRGBColorSpace\<close> for the role index 1, and with
  \<^verbatim>\<open>flipY\<close> false for every role index. So every returned texture has these
  settings.
\<close>

theorem loadTextureOptimized_settings:
  "(loadTextureAsync env castleIndex r res = None \<longrightarrow>
      fst (loadTextureOptimized env castleIndex res r) = None) \<and>
   (\<forall>tex. loadTextureAsync env castleIndex r res = Some tex \<longrightarrow>
      (\<exists>t. fst (loadTextureOptimized env castleIndex res r) = Some t \<and>
           image t = image tex \<and>
           (r = 0 \<or> r = 2 \<longrightarrow> colorSpace t = NoColorSpace) \<and>
           (r = 1 \<longrightarrow> colorSpace t = SRGBColorSpace) \<and>
           flipY t = False)) \<and>
   (\<forall>t. fst (loadTextureOptimized env castleIndex res r) = Some t \<longrightarrow>
      loadTextureAsync env castleIndex r res \<noteq> None \<and>
      (r = 0 \<or> r = 2 \<longrightarrow> colorSpace t = NoColorSpace) \<and>
      (r = 1 \<longrightarrow> colorSpace t = SRGBColorSpace) \<and>
      flipY t = False)"
  by (cases "loadTextureAsync env castleIndex r res")
     (auto simp add: loadTextureOptimized_def)

theorem loadTextureOptimized_settings_witness:
  "loadTextureAsync loadsAll 0 0 2 = Some (sampleTexture 2) \<and>
   colorSpace (sampleTexture 2) = LinearSRGBColorSpace \<and>
   flipY (sampleTexture 2) = True \<and>
   (\<exists>t. fst (loadTextureOptimized loadsAll 0 2 0) = Some t \<and>
        colorSpace t = NoColorSpace \<and> flipY t = False) \<and>
   (\<exists>t. fst (loadTextureOptimized loadsAll 0 3 1) = Some t \<and>
        colorSpace t = SRGBColorSpace \<and> flipY t = False) \<and>
   (\<exists>t. fst (loadTextureOptimized loadsAll 0 4 2) = Some t \<and>
        colorSpace t = NoColorSpace \<and> flipY t = False) \<and>
   loadTextureAsync (texturesRejectFrom 2) 0 2 4 = None \<and>
   fst (loadTextureOptimized (texturesRejectFrom 2) 0 4 2) = None"
proof -
  have l0: "loadTextureAsync loadsAll 0 0 2 = Some (sampleTexture 2)"
    and l1: "loadTextureAsync loadsAll 0 1 3 = Some (sampleTexture 3)"
    and l2: "loadTextureAsync loadsAll 0 2 4 = Some (sampleTexture 4)"
    and l3: "loadTextureAsync (texturesRejectFrom 2) 0 2 4 = None"
    by (simp_all add: loadsAll_def texturesRejectFrom_def)
  show ?thesis
    using loadTextureOptimized_settings [of loadsAll 0 0 2]
      loadTextureOptimized_settings [of loadsAll 0 1 3]
      loadTextureOptimized_settings [of loadsAll 0 2 4]
      loadTextureOptimized_settings [of "texturesRejectFrom 2" 0 2 4]
      l0 l1 l2 l3
    by (auto simp add: sampleTexture_def)
qed

section \<open>Facts about the texturing step\<close>

lemma applyTexturesToMesh_incomplete:
  "length ts < 3 \<Longrightarrow> applyTexturesToMesh mesh ts = (mesh, [skipWarning (length ts) mesh])"
  by (simp add: applyTexturesToMesh_def skipWarning_def Let_def)

lemma traverseApply_incomplete:
  "length ts < 3 \<Longrightarrow> traverseApply ts n = (n, map (skipWarning (length ts)) (meshNodes n))"
proof (induction n)
  case (Object3D m g mat y cs)
  have below: "map (traverseApply ts) cs =
      map (\<lambda>c. (c, map (skipWarning (length ts)) (meshNodes c))) cs"
    using Object3D by (intro map_cong) simp_all
  have fsts: "map fst (map (traverseApply ts) cs) = cs"
    unfolding below by (simp add: comp_def)
  have snds: "concat (map snd (map (traverseApply ts) cs)) =
      map (skipWarning (length ts)) (concat (map meshNodes cs))"
    unfolding below by (simp add: comp_def map_concat)
  show ?case
    using Object3D.prems fsts snds
    by (simp add: applyTexturesToMesh_incomplete Let_def)
qed

section \<open>Facts about the model loader\<close>

lemma loadSingleCastle_no_textures:
  "loadedTexturesOf env castleData i = [] \<Longrightarrow>
   loadSingleCastle env castleData i n =
     (None, textureConsole env castleData i @ [ConsoleError (NoTexturesLoaded (i + 1))])"
  by (simp add: loadSingleCastle_def loadedTexturesOf_def Let_def)

lemma loadSingleCastle_load_failed:
  "loadFailed (loadAsync env i (model castleData)) \<Longrightarrow>
   fst (loadSingleCastle env castleData i n) = None"
  by (cases "loadAsync env i (model castleData)")
     (simp_all add: loadSingleCastle_def Let_def)

lemma loadSingleCastle_incomplete:
  assumes "loadedTexturesOf env castleData i \<noteq> []"
    and "length (loadedTexturesOf env castleData i) < 3"
    and "loadAsync env i (model castleData) = LoadScene sceneRoot"
  shows "loadSingleCastle env castleData i n =
     (Some (newGroup\<lparr>children := [sceneRoot]\<rparr>),
      textureConsole env castleData i @
      map (skipWarning (length (loadedTexturesOf env castleData i))) (meshNodes sceneRoot))"
  using assms traverseApply_incomplete [of "loadedTexturesOf env castleData i" sceneRoot]
  by (simp add: loadSingleCastle_def loadedTexturesOf_def Let_def)

section \<open>Facts about the scene assembly\<close>

lemma castleGroups_loadCastlesGroup:
  "castleGroups (loadCastlesGroup env m scene) =
     map (\<lambda>i. placeCastle i (fst (loadOrFallback env (fst (readManifest m)) i)))
         [0..<length (fst (readManifest m))]"
proof (cases "fst (readManifest m) = []")
  case True
  then show ?thesis by (simp add: loadCastlesGroup_def)
next
  case False
  have "map (\<lambda>(i, castle). placeCastle i castle)
          (enumerate 0 (map fst (map (loadOrFallback env (fst (readManifest m)))
             [0..<length (fst (readManifest m))]))) =
        map (\<lambda>i. placeCastle i (fst (loadOrFallback env (fst (readManifest m)) i)))
          [0..<length (fst (readManifest m))]"
    by (rule nth_equalityI) (simp_all add: nth_enumerate_eq)
  with False show ?thesis
    by (simp add: loadCastlesGroup_def Let_def)
qed

lemma sceneChildren_loadCastlesGroup:
  "sceneChildren (loadCastlesGroup env m scene) =
     scene @ map GroupChild (castleGroups (loadCastlesGroup env m scene))"
  by (simp add: loadCastlesGroup_def Let_def)

lemma length_castleGroups:
  "length (castleGroups (loadCastlesGroup env m scene)) = length (fst (readManifest m))"
  by (simp add: castleGroups_loadCastlesGroup)

lemma positionAt_slots:
  "positionAt i =
     (if i = 1 then \<lparr>vx = 0, vy = 0, vz = 0\<rparr>
      else if i = 2 then \<lparr>vx = 30, vy = 0, vz = 0\<rparr>
      else \<lparr>vx = - 30, vy = 0, vz = 0\<rparr>)"
proof -
  consider "i = 0" | "i = 1" | "i = 2" | "3 \<le> i" by linarith
  then show ?thesis
    by cases (simp_all add: positionAt_def positions_def)
qed

lemma position_placeCastle: "position (placeCastle i castle) = positionAt i"
  by (simp add: placeCastle_def Let_def)

lemma scale_placeCastle:
  "scale (placeCastle i castle) = \<lparr>vx = 22, vy = 22, vz = 22\<rparr>"
  by (simp add: placeCastle_def Let_def castleScale_def)

lemma map_position_castleGroups:
  "map position (castleGroups (loadCastlesGroup env m scene)) =
     map positionAt [0..<length (fst (readManifest m))]"
  by (simp add: castleGroups_loadCastlesGroup position_placeCastle comp_def)

lemma map_scale_castleGroups:
  "map scale (castleGroups (loadCastlesGroup env m scene)) =
     replicate (length (fst (readManifest m))) \<lparr>vx = 22, vy = 22, vz = 22\<rparr>"
  by (simp add: castleGroups_loadCastlesGroup scale_placeCastle comp_def map_replicate_const)

lemma loadOrFallback_failed:
  "fst (loadSingleCastle env (manifest ! i) i (length manifest)) = None \<Longrightarrow>
   fst (loadOrFallback env manifest i) = createFallbackCastle i \<and>
   ConsoleWarn (UsingFallback (i + 1)) \<in> set (snd (loadOrFallback env manifest i))"
  by (cases "loadSingleCastle env (manifest ! i) i (length manifest)")
     (simp add: loadOrFallback_def)

lemma console_loadCastlesGroup:
  "i < length (fst (readManifest m)) \<Longrightarrow>
   set (snd (loadOrFallback env (fst (readManifest m)) i))
     \<subseteq> set (console (loadCastlesGroup env m scene))"
  by (auto simp add: loadCastlesGroup_def Let_def)

text \<open>
  Claim C4, amended. For every manifest the number of returned groups is the number of
  entries the filter keeps; the group at index 0, 1, 2 is placed at \<open>(-30, 0, 0)\<close>,
  \<open>(0, 0, 0)\<close>, \<open>(30, 0, 0)\<close>, a group at index 3 or more at the first slot
  \<open>(-30, 0, 0)\<close>, and every group has the uniform scale 22.
\<close>

theorem loadCastlesGroup_placement:
  "length (castleGroups (loadCastlesGroup env m scene)) = length (fst (readManifest m)) \<and>
   map position (castleGroups (loadCastlesGroup env m scene)) =
     map (\<lambda>i. if i = 1 then \<lparr>vx = 0, vy = 0, vz = 0\<rparr>
              else if i = 2 then \<lparr>vx = 30, vy = 0, vz = 0\<rparr>
              else \<lparr>vx = - 30, vy = 0, vz = 0\<rparr>)
         [0..<length (fst (readManifest m))] \<and>
   map scale (castleGroups (loadCastlesGroup env m scene)) =
     replicate (length (fst (readManifest m))) \<lparr>vx = 22, vy = 22, vz = 22\<rparr>"
proof -
  have "positionAt = (\<lambda>i. if i = 1 then \<lparr>vx = 0, vy = 0, vz = 0\<rparr>
              else if i = 2 then \<lparr>vx = 30, vy = 0, vz = 0\<rparr>
              else \<lparr>vx = - 30, vy = 0, vz = 0\<rparr>)"
    by (rule ext) (rule positionAt_slots)
  then show ?thesis
    by (simp only: length_castleGroups map_position_castleGroups map_scale_castleGroups)
qed

text \<open>
  Claim C4 as stated fails on the manifest of the application: its three groups are not at
  \<open>(-25, 0, 0)\<close>, \<open>(0, 0, 0)\<close>, \<open>(25, 0, 0)\<close>.
\<close>

theorem three_model_positions_counterexample:
  "\<not> (map position (castleGroups (loadCastlesGroup loadsAll appManifest [])) =
        [\<lparr>vx = - 25, vy = 0, vz = 0\<rparr>, \<lparr>vx = 0, vy = 0, vz = 0\<rparr>, \<lparr>vx = 25, vy = 0, vz = 0\<rparr>])"
  by (simp add: map_position_castleGroups appManifest_def List.map_filter_def
        positionAt_slots upt_rec)

text \<open>
  With five entries the groups are not evenly spaced either: the middle group, for which
  \<open>i - (n - 1) / 2\<close> is zero, stands at \<open>x = 30\<close>.
\<close>

lemma five_model_positions:
  "map (\<lambda>g. vx (position g))
     (castleGroups (loadCastlesGroup loadsAll
        (ManifestArray (replicate 5 (ItemObject (Some 1) (Some [2, 3, 4])))) [])) =
   [- 30, 0, 30, - 30, - 30]"
proof -
  have "map (\<lambda>g. vx (position g)) gs = map vx (map position gs)" for gs :: "group list"
    by simp
  then show ?thesis
    by (simp only: map_position_castleGroups)
       (simp add: List.map_filter_def positionAt_slots upt_rec eval_nat_numeral)
qed

text \<open>
  Claim C1. If the model load of entry \<open>i\<close> throws, yields no result or yields a result
  without a scene root, the group returned at index \<open>i\<close> is the fallback castle of
  \<open>i\<close>, placed and scaled like any group of that index, the fallback warning is
  logged and the groups are added to the scene; the call returns its result whatever the
  loaders do. The number of groups, their positions and their scales are the same for any
  other loaders and scene, so for loaders under which that load succeeds.
\<close>

theorem loadCastlesGroup_fallback:
  assumes "i < length (fst (readManifest m))"
    and "loadFailed (loadAsync env i (model (fst (readManifest m) ! i)))"
  shows "castleGroups (loadCastlesGroup env m scene) ! i = placeCastle i (createFallbackCastle i) \<and>
         ConsoleWarn (UsingFallback (i + 1)) \<in> set (console (loadCastlesGroup env m scene)) \<and>
         sceneChildren (loadCastlesGroup env m scene) =
           scene @ map GroupChild (castleGroups (loadCastlesGroup env m scene)) \<and>
         length (castleGroups (loadCastlesGroup env m scene)) =
           length (castleGroups (loadCastlesGroup env' m scene')) \<and>
         map position (castleGroups (loadCastlesGroup env m scene)) =
           map position (castleGroups (loadCastlesGroup env' m scene')) \<and>
         map scale (castleGroups (loadCastlesGroup env m scene)) =
           map scale (castleGroups (loadCastlesGroup env' m scene'))"
proof -
  let ?manifest = "fst (readManifest m)"
  have none: "fst (loadSingleCastle env (?manifest ! i) i (length ?manifest)) = None"
    using assms(2) by (rule loadSingleCastle_load_failed)
  note fb = loadOrFallback_failed [OF none]
  have "castleGroups (loadCastlesGroup env m scene) ! i =
      placeCastle i (fst (loadOrFallback env ?manifest i))"
    using assms(1) by (simp add: castleGroups_loadCastlesGroup)
  moreover have "ConsoleWarn (UsingFallback (i + 1)) \<in> set (console (loadCastlesGroup env m scene))"
    using fb console_loadCastlesGroup [OF assms(1), of env scene] by blast
  ultimately show ?thesis
    using fb
    by (simp add: sceneChildren_loadCastlesGroup length_castleGroups
          map_position_castleGroups map_scale_castleGroups)
qed

lemma readManifest_appManifest:
  "fst (readManifest appManifest) =
     [\<lparr>model = 1, textures = [2, 3, 4]\<rparr>,
      \<lparr>model = 5, textures = [6, 7, 8]\<rparr>,
      \<lparr>model = 9, textures = [10, 11, 12]\<rparr>]"
  by (simp add: appManifest_def List.map_filter_def)

theorem loadCastlesGroup_fallback_witness:
  "2 < length (fst (readManifest appManifest)) \<and>
   loadFailed (loadAsync (modelThrowsAt 2) 2 (model (fst (readManifest appManifest) ! 2))) \<and>
   position (castleGroups (loadCastlesGroup (modelThrowsAt 2) appManifest []) ! 2) =
     \<lparr>vx = 30, vy = 0, vz = 0\<rparr> \<and>
   children (castleGroups (loadCastlesGroup (modelThrowsAt 2) appManifest []) ! 2) =
     [Object3D True (Some (BoxGeometry 2 3 2))
        (SingleMaterial (MeshLambertMaterial 16776960)) 1.5 [],
      Object3D True (Some (ConeGeometry 1.5 2 4))
        (SingleMaterial (MeshLambertMaterial 16739179)) 4 []] \<and>
   map position (castleGroups (loadCastlesGroup (modelThrowsAt 2) appManifest [])) =
     map position (castleGroups (loadCastlesGroup loadsAll appManifest []))"
proof -
  have h1: "2 < length (fst (readManifest appManifest))"
    by (simp add: readManifest_appManifest)
  have h2: "loadFailed (loadAsync (modelThrowsAt 2) 2 (model (fst (readManifest appManifest) ! 2)))"
    by (simp add: modelThrowsAt_def)
  have p: "position (placeCastle 2 (createFallbackCastle 2)) = \<lparr>vx = 30, vy = 0, vz = 0\<rparr>"
    by (simp add: position_placeCastle positionAt_slots)
  have c: "children (placeCastle 2 (createFallbackCastle 2)) =
     [Object3D True (Some (BoxGeometry 2 3 2))
        (SingleMaterial (MeshLambertMaterial 16776960)) 1.5 [],
      Object3D True (Some (ConeGeometry 1.5 2 4))
        (SingleMaterial (MeshLambertMaterial 16739179)) 4 []]"
    by (simp add: placeCastle_def createFallbackCastle_def newGroup_def Let_def)
  show ?thesis
    using loadCastlesGroup_fallback [OF h1 h2, of "[]" loadsAll "[]"] h1 h2 p c
    by simp
qed

section \<open>Facts about incomplete texture sets\<close>

text \<open>
  Claim C6, amended. Let fewer than three textures of an entry load, and let the model load
  yield a scene root. With one or two textures the load returns a group around the scene
  root as it was loaded, every mesh on the material it came with, and after the messages of
  the texture loads each mesh handed to the texturing step gets one warning. With no texture
  the load returns no result, its last message is the error that no texture loaded, and
  \<^verbatim>\<open>loadCastlesGroup\<close> puts the fallback castle at the index of the entry.
\<close>

theorem loadSingleCastle_incomplete_textures:
  assumes "length (loadedTexturesOf env castleData i) < 3"
    and "loadAsync env i (model castleData) = LoadScene sceneRoot"
  shows "(loadedTexturesOf env castleData i \<noteq> [] \<longrightarrow>
            fst (loadSingleCastle env castleData i n) =
              Some (newGroup\<lparr>children := [sceneRoot]\<rparr>) \<and>
            snd (loadSingleCastle env castleData i n) =
              textureConsole env castleData i @
              map (skipWarning (length (loadedTexturesOf env castleData i)))
                (meshNodes sceneRoot)) \<and>
         (loadedTexturesOf env castleData i = [] \<longrightarrow>
            fst (loadSingleCastle env castleData i n) = None \<and>
            last (snd (loadSingleCastle env castleData i n)) =
              ConsoleError (NoTexturesLoaded (i + 1)) \<and>
            (\<forall>m scene.
               i < length (fst (readManifest m)) \<and> fst (readManifest m) ! i = castleData \<longrightarrow>
               castleGroups (loadCastlesGroup env m scene) ! i =
                 placeCastle i (createFallbackCastle i) \<and>
               ConsoleWarn (UsingFallback (i + 1)) \<in> set (console (loadCastlesGroup env m scene))))"
proof (cases "loadedTexturesOf env castleData i = []")
  case True
  have none: "fst (loadSingleCastle env castleData i k) = None" for k
    using True by (simp add: loadSingleCastle_no_textures)
  have "castleGroups (loadCastlesGroup env m scene) ! i = placeCastle i (createFallbackCastle i) \<and>
        ConsoleWarn (UsingFallback (i + 1)) \<in> set (console (loadCastlesGroup env m scene))"
    if lt: "i < length (fst (readManifest m))" and at: "fst (readManifest m) ! i = castleData"
    for m scene
  proof -
    have "fst (loadSingleCastle env (fst (readManifest m) ! i) i (length (fst (readManifest m)))) = None"
      using at none by simp
    note fb = loadOrFallback_failed [OF this]
    then show ?thesis
      using lt console_loadCastlesGroup [OF lt, of env scene]
      by (auto simp add: castleGroups_loadCastlesGroup)
  qed
  then show ?thesis
    using True by (simp add: loadSingleCastle_no_textures)
next
  case False
  then show ?thesis
    using loadSingleCastle_incomplete [OF False assms] by simp
qed

lemma loaded_two_of_three:
  "loadedTexturesOf (texturesRejectFrom 2) \<lparr>model = 9, textures = [10, 11, 12]\<rparr> 2 =
      [(sampleTexture 10)\<lparr>colorSpace := NoColorSpace, wrapS := RepeatWrapping,
         wrapT := RepeatWrapping, minFilter := LinearMipmapLinearFilter,
         magFilter := LinearFilter, generateMipmaps := True,
         anisotropy := 4, flipY := False, needsUpdate := True\<rparr>,
       (sampleTexture 11)\<lparr>colorSpace := SRGBColorSpace, wrapS := RepeatWrapping,
         wrapT := RepeatWrapping, minFilter := LinearMipmapLinearFilter,
         magFilter := LinearFilter, generateMipmaps := True,
         anisotropy := 4, flipY := False, needsUpdate := True\<rparr>]"
  by (simp add: loadedTexturesOf_def settledTextures_def texturesRejectFrom_def
        loadTextureOptimized_def List.map_filter_def enumerate_eq_zip upt_rec)

lemma loaded_none_of_three:
  "loadedTexturesOf (texturesRejectFrom 0) \<lparr>model = 9, textures = [10, 11, 12]\<rparr> 2 = []"
  by (simp add: loadedTexturesOf_def settledTextures_def texturesRejectFrom_def
        loadTextureOptimized_def List.map_filter_def enumerate_eq_zip upt_rec)

text \<open>The messages of the texture loads come in the order in which the loads settle.\<close>

lemma textureConsole_examples:
  "textureConsole (texturesRejectFrom 2) \<lparr>model = 9, textures = [10, 11, 12]\<rparr> 2 =
     [ConsoleError (TextureFailed 2)] \<and>
   textureConsole (texturesRejectFrom 0) \<lparr>model = 9, textures = [10, 11, 12]\<rparr> 2 =
     [ConsoleError (TextureFailed 2), ConsoleError (TextureFailed 1),
      ConsoleError (TextureFailed 0)]"
  by (simp add: textureConsole_def settledTextures_def texturesRejectFrom_def
        loadTextureOptimized_def enumerate_eq_zip upt_rec Let_def)

theorem loadSingleCastle_incomplete_textures_witness:
  "length (loadedTexturesOf (texturesRejectFrom 2) \<lparr>model = 9, textures = [10, 11, 12]\<rparr> 2) = 2 \<and>
   loadAsync (texturesRejectFrom 2) 2 9 = LoadScene sampleScene \<and>
   loadSingleCastle (texturesRejectFrom 2) \<lparr>model = 9, textures = [10, 11, 12]\<rparr> 2 3 =
     (Some (newGroup\<lparr>children := [sampleScene]\<rparr>),
      [ConsoleError (TextureFailed 2), ConsoleWarn (ExpectedThreeTextures 2)]) \<and>
   length (loadedTexturesOf (texturesRejectFrom 0) \<lparr>model = 9, textures = [10, 11, 12]\<rparr> 2) = 0 \<and>
   loadAsync (texturesRejectFrom 0) 2 9 = LoadScene sampleScene \<and>
   fst (loadSingleCastle (texturesRejectFrom 0) \<lparr>model = 9, textures = [10, 11, 12]\<rparr> 2 3) = None \<and>
   castleGroups (loadCastlesGroup (texturesRejectFrom 0) appManifest []) ! 2 =
     placeCastle 2 (createFallbackCastle 2)"
proof -
  let ?cd = "\<lparr>model = 9, textures = [10, 11, 12]\<rparr>"
  note l = loaded_two_of_three
  note z = loaded_none_of_three
  have w: "\<And>k. map (skipWarning k) (meshNodes sampleScene) =
      [ConsoleWarn (ExpectedThreeTextures k)]"
    by (simp add: sampleScene_def skipWarning_def)
  have lt2: "length (loadedTexturesOf (texturesRejectFrom 2) ?cd 2) < 3" by (simp add: l)
  have m2: "loadAsync (texturesRejectFrom 2) 2 (model ?cd) = LoadScene sampleScene"
    by (simp add: texturesRejectFrom_def)
  have lt0: "length (loadedTexturesOf (texturesRejectFrom 0) ?cd 2) < 3" by (simp add: z)
  have m0: "loadAsync (texturesRejectFrom 0) 2 (model ?cd) = LoadScene sampleScene"
    by (simp add: texturesRejectFrom_def)
  have at: "2 < length (fst (readManifest appManifest)) \<and> fst (readManifest appManifest) ! 2 = ?cd"
    by (simp add: readManifest_appManifest)
  have two: "loadSingleCastle (texturesRejectFrom 2) ?cd 2 3 =
     (Some (newGroup\<lparr>children := [sampleScene]\<rparr>),
      [ConsoleError (TextureFailed 2), ConsoleWarn (ExpectedThreeTextures 2)])"
    using loadSingleCastle_incomplete_textures [OF lt2 m2, of 3] textureConsole_examples
    by (simp only: l prod_eq_iff) (simp add: w numeral_2_eq_2)
  have zero: "fst (loadSingleCastle (texturesRejectFrom 0) ?cd 2 3) = None \<and>
      castleGroups (loadCastlesGroup (texturesRejectFrom 0) appManifest []) ! 2 =
        placeCastle 2 (createFallbackCastle 2)"
    using loadSingleCastle_incomplete_textures [OF lt0 m0, of 3] at z
    by blast
  show ?thesis
    using two zero m2 m0 by (simp add: l z)
qed

text \<open>
  Claim C6 as stated fails when no texture loads: the model itself would load, and the load
  of the castle still returns no result.
\<close>

theorem zero_textures_counterexample:
  "loadAsync (texturesRejectFrom 0) 2 9 = LoadScene sampleScene \<and>
   fst (loadSingleCastle (texturesRejectFrom 0) \<lparr>model = 9, textures = [10, 11, 12]\<rparr> 2 3) = None"
  by (simp add: loadSingleCastle_def settledTextures_def texturesRejectFrom_def
        loadTextureOptimized_def List.map_filter_def enumerate_eq_zip upt_rec Let_def)

section \<open>Facts about the manifest\<close>

lemma map_filter_Nil_iff:
  "List.map_filter f xs = [] \<longleftrightarrow> list_all (\<lambda>x. f x = None) xs"
  by (induction xs) (simp_all add: List.map_filter_def)

lemma noValidEntry_iff: "noValidEntry m \<longleftrightarrow> fst (readManifest m) = []"
  by (cases m) (simp_all add: map_filter_Nil_iff)

text \<open>
  Claim C9, amended. The call returns no group exactly when the filter keeps no entry of the
  manifest value: an array, or the \<^verbatim>\<open>default\<close> array of a value that is not an array,
  without an entry that has both a model and textures; a value without a truthy
  \<^verbatim>\<open>default\<close>; or one whose \<^verbatim>\<open>default\<close> cannot be filtered. Then the scene is
  unchanged and the last message is the warning that the manifest has no models. A value
  that is not an array and whose \<^verbatim>\<open>default\<close> is an array is loaded like that array,
  and an array gives one group for each of its entries that has both a model and textures.
\<close>

theorem loadCastlesGroup_no_valid_entry:
  "(castleGroups (loadCastlesGroup env m scene) = [] \<longleftrightarrow> noValidEntry m) \<and>
   (noValidEntry m \<longrightarrow>
      sceneChildren (loadCastlesGroup env m scene) = scene \<and>
      last (console (loadCastlesGroup env m scene)) = ConsoleWarn NoModelsInManifest) \<and>
   loadCastlesGroup env (DefaultArray items) scene =
     loadCastlesGroup env (ManifestArray items) scene \<and>
   length (castleGroups (loadCastlesGroup env (ManifestArray items) scene)) =
     length (filter (\<lambda>item. validItem item \<noteq> None) items)"
proof -
  have "castleGroups (loadCastlesGroup env m scene) = [] \<longleftrightarrow> fst (readManifest m) = []"
    using length_castleGroups [of env m scene] by (metis length_0_conv)
  moreover have "fst (readManifest m) = [] \<Longrightarrow>
      sceneChildren (loadCastlesGroup env m scene) = scene \<and>
      last (console (loadCastlesGroup env m scene)) = ConsoleWarn NoModelsInManifest"
    by (simp add: loadCastlesGroup_def)
  moreover have "loadCastlesGroup env (DefaultArray items) scene =
      loadCastlesGroup env (ManifestArray items) scene"
    by (simp add: loadCastlesGroup_def)
  moreover have "length (castleGroups (loadCastlesGroup env (ManifestArray items) scene)) =
      length (filter (\<lambda>item. validItem item \<noteq> None) items)"
    by (simp add: length_castleGroups List.map_filter_def)
  ultimately show ?thesis by (simp add: noValidEntry_iff)
qed

theorem loadCastlesGroup_no_valid_entry_witness:
  "noValidEntry (ManifestArray [FalsyItem, ItemObject (Some 5) None]) \<and>
   castleGroups (loadCastlesGroup loadsAll
     (ManifestArray [FalsyItem, ItemObject (Some 5) None]) [AmbientLight 1]) = [] \<and>
   sceneChildren (loadCastlesGroup loadsAll
     (ManifestArray [FalsyItem, ItemObject (Some 5) None]) [AmbientLight 1]) = [AmbientLight 1] \<and>
   console (loadCastlesGroup loadsAll
     (ManifestArray [FalsyItem, ItemObject (Some 5) None]) [AmbientLight 1]) =
     [ConsoleWarn NoModelsInManifest] \<and>
   length (castleGroups (loadCastlesGroup loadsAll
     (DefaultArray [FalsyItem, ItemObject (Some 5) (Some [6, 7, 8]), ItemObject (Some 9) None,
        ItemObject (Some 9) (Some [10, 11, 12])]) [AmbientLight 1])) = 2"
  using loadCastlesGroup_no_valid_entry
    [of loadsAll "ManifestArray [FalsyItem, ItemObject (Some 5) None]" "[AmbientLight 1]"
      "[FalsyItem, ItemObject (Some 5) (Some [6, 7, 8]), ItemObject (Some 9) None,
        ItemObject (Some 9) (Some [10, 11, 12])]"]
  by (simp add: loadCastlesGroup_def List.map_filter_def)

text \<open>
  Claim C9 as stated fails for a manifest value that is not an array and whose
  \<^verbatim>\<open>default\<close> is an array with a valid entry: it is loaded like an array.
\<close>

theorem default_array_manifest_counterexample:
  "\<not> (castleGroups (loadCastlesGroup loadsAll
         (DefaultArray [ItemObject (Some 5) (Some [6, 7, 8])]) []) = [])"
proof
  assume "castleGroups (loadCastlesGroup loadsAll
         (DefaultArray [ItemObject (Some 5) (Some [6, 7, 8])]) []) = []"
  then have "length (castleGroups (loadCastlesGroup loadsAll
         (DefaultArray [ItemObject (Some 5) (Some [6, 7, 8])]) [])) = 0"
    by simp
  then show False
    by (simp add: length_castleGroups List.map_filter_def)
qed

end
